theory Spec2Isabelle
  imports Complex_Main "HOL-Library.AList"
begin

section \<open>Data model\<close>

text \<open>
  The development embeds the simulated exchange of ninjabot (\<^verbatim>\<open>PaperWallet\<close>, file
  \<^verbatim>\<open>src/unnamed/part_000\<close>), the order controller's profit replay
  (\<^verbatim>\<open>src/tools/scheduler.go\<close>, package \<^verbatim>\<open>order\<close>) and the strategy controller
  (\<^verbatim>\<open>src/strategy/controller.go\<close>).

  Conventions of the embedding.
  \<^item> Go's \<^verbatim>\<open>float64\<close> is idealised as \<^typ>\<open>real\<close>: rounding, infinities and NaN are not
    modelled. Every concrete evaluation below uses values on which the float computation is
    exact. A float division by zero yields an infinity or NaN in Go and \<open>0\<close> in HOL; no
    theorem below evaluates a division by zero.
  \<^item> \<^verbatim>\<open>time.Time\<close> is an integer count of time units; Go's zero value
    \<^verbatim>\<open>time.Time{}\<close> is \<open>0\<close>.
  \<^item> \<^verbatim>\<open>int64\<close> is an \<^typ>\<open>int\<close> with the two's-complement wrap-around written out
    (\<open>wrap64\<close>).
  \<^item> A Go map that the code only indexes is a partial function; the map of balances, which
    the code also ranges over, is an association list.
  \<^item> The types of package \<^verbatim>\<open>model\<close> (\<^verbatim>\<open>Order\<close>, \<^verbatim>\<open>Candle\<close>, \<^verbatim>\<open>Dataframe\<close>) are
    not among the sources; their records hold the fields the code reads and writes.
\<close>

type_synonym float64 = real
type_synonym time = int

datatype SideType = SideTypeBuy | SideTypeSell

datatype OrderType =
    OrderTypeLimit
  | OrderTypeMarket
  | OrderTypeLimitMaker
  | OrderTypeStopLoss
  | OrderTypeStopLossLimit
  | OrderTypeTakeProfit
  | OrderTypeTakeProfitLimit

datatype OrderStatusType =
    OrderStatusTypeNew
  | OrderStatusTypePartiallyFilled
  | OrderStatusTypeFilled
  | OrderStatusTypeCanceled
  | OrderStatusTypePendingCancel
  | OrderStatusTypeRejected
  | OrderStatusTypeExpired

text \<open>\<^verbatim>\<open>model.Order\<close>. The field \<^verbatim>\<open>Pair\<close> is named \<open>OrderPair\<close>; the pointers
  \<^verbatim>\<open>Stop\<close> and \<^verbatim>\<open>GroupID\<close> are options, \<open>None\<close> for \<^verbatim>\<open>nil\<close>.\<close>

record Order =
  ID :: int
  ExchangeID :: int
  CreatedAt :: time
  UpdatedAt :: time
  OrderPair :: string
  Side :: SideType
  Type :: OrderType
  Status :: OrderStatusType
  Price :: float64
  Quantity :: float64
  Stop :: "float64 option"
  GroupID :: "int option"
  RefPrice :: float64
  Profit :: float64

text \<open>\<^verbatim>\<open>model.Candle\<close>; \<^verbatim>\<open>Pair\<close> and \<^verbatim>\<open>Time\<close> are named \<open>CandlePair\<close> and
  \<open>CandleTime\<close>, the metadata map is an association list.\<close>

record Candle =
  CandlePair :: string
  CandleTime :: time
  Open :: float64
  Close :: float64
  Low :: float64
  High :: float64
  Volume :: float64
  Complete :: bool
  Metadata :: "(string \<times> float64) list"

definition zeroCandle :: Candle where
  "zeroCandle = \<lparr>CandlePair = [], CandleTime = 0, Open = 0, Close = 0, Low = 0, High = 0,
     Volume = 0, Complete = False, Metadata = []\<rparr>"

record assetInfo =
  Free :: float64
  Lock :: float64

record AssetValue =
  Time :: time
  Value :: float64

text \<open>\<^verbatim>\<open>PaperWallet\<close>. The mutex, the context and the feeder take no part in the functions
  embedded here. \<open>profitLog\<close> records, in order, the profit values that
  \<^verbatim>\<open>updateAveragePrice\<close> prints with \<^verbatim>\<open>log.Infof("PROFIT = ...")\<close>.\<close>

record PaperWallet =
  baseCoin :: string
  counter :: int
  takerFee :: float64
  makerFee :: float64
  initialValue :: float64
  orders :: "Order list"
  assets :: "(string \<times> assetInfo) list"
  avgShortPrice :: "string \<rightharpoonup> float64"
  avgLongPrice :: "string \<rightharpoonup> float64"
  volume :: "string \<rightharpoonup> float64"
  lastCandle :: "string \<rightharpoonup> Candle"
  fistCandle :: "string \<rightharpoonup> Candle"
  assetValues :: "string \<rightharpoonup> AssetValue list"
  equityValues :: "AssetValue list"
  profitLog :: "float64 list"

datatype error =
    ErrInvalidQuantity
  | ErrInsufficientFunds string float64
  | StorageError
  | NilPointerPanic
  | IndexOutOfRangePanic

text \<open>Reading a \<^verbatim>\<open>map[string]float64\<close> or \<^verbatim>\<open>map[string]model.Candle\<close> at a missing key
  gives the zero value.\<close>

definition getF :: "(string \<rightharpoonup> float64) \<Rightarrow> string \<Rightarrow> float64" where
  "getF m k = (case m k of None \<Rightarrow> 0 | Some v \<Rightarrow> v)"

definition getCandle :: "(string \<rightharpoonup> Candle) \<Rightarrow> string \<Rightarrow> Candle" where
  "getCandle m k = (case m k of None \<Rightarrow> zeroCandle | Some c \<Rightarrow> c)"

text \<open>\<^verbatim>\<open>math.MaxFloat64\<close>, the largest finite double: \<open>(2 - 2\<^sup>-\<^sup>5\<^sup>2) * 2\<^sup>1\<^sup>0\<^sup>2\<^sup>3\<close>.\<close>

definition MaxFloat64 :: float64 where
  "MaxFloat64 = (2 ^ 53 - 1) * 2 ^ 971"

section \<open>Maximum drawdown\<close>

text \<open>The eight local variables of \<^verbatim>\<open>MaxDrawdown\<close>.\<close>

record drawdown_vars =
  localMin :: float64
  localMinBase :: float64
  localMinStart :: time
  localMinEnd :: time
  globalMin :: float64
  globalMinBase :: float64
  globalMinStart :: time
  globalMinEnd :: time

text \<open>The body of the loop \<^verbatim>\<open>for i := 1; i < len(p.equityValues); i++\<close>: \<open>prev\<close> is
  \<^verbatim>\<open>equityValues[i-1]\<close> and the list holds \<^verbatim>\<open>equityValues[i:]\<close>.\<close>

fun MaxDrawdown_loop :: "AssetValue \<Rightarrow> AssetValue list \<Rightarrow> drawdown_vars \<Rightarrow> drawdown_vars" where
  "MaxDrawdown_loop prev [] s = s"
| "MaxDrawdown_loop prev (cur # rest) s =
    (let diff = Value cur - Value prev;
         s1 = (if localMin s > 0
               then s\<lparr>localMin := diff, localMinBase := Value prev,
                      localMinStart := Time prev, localMinEnd := Time cur\<rparr>
               else s\<lparr>localMin := localMin s + diff, localMinEnd := Time cur\<rparr>);
         s2 = (if localMin s1 < globalMin s1
               then s1\<lparr>globalMin := localMin s1, globalMinBase := localMinBase s1,
                       globalMinStart := localMinStart s1, globalMinEnd := localMinEnd s1\<rparr>
               else s1)
     in MaxDrawdown_loop cur rest s2)"

definition MaxDrawdown :: "PaperWallet \<Rightarrow> float64 \<times> time \<times> time" where
  "MaxDrawdown p =
    (case equityValues p of
       [] \<Rightarrow> (0, 0, 0)
     | e0 # rest \<Rightarrow>
        (let s0 = \<lparr>localMin = MaxFloat64, localMinBase = Value e0,
                    localMinStart = Time e0, localMinEnd = Time e0,
                    globalMin = MaxFloat64, globalMinBase = Value e0,
                    globalMinStart = Time e0, globalMinEnd = Time e0\<rparr>;
             s = MaxDrawdown_loop e0 rest s0
         in (globalMin s / globalMinBase s, globalMinStart s, globalMinEnd s)))"

section \<open>The balance ledger\<close>

text \<open>\<^verbatim>\<open>SplitAssetQuote\<close> is called by the wallet but defined in a file that is not among
  the sources; every function that calls it takes it as the parameter \<open>sp\<close>.\<close>

type_synonym split = "string \<Rightarrow> string \<times> string"

text \<open>\<^verbatim>\<open>if _, ok := p.assets[k]; !ok { p.assets[k] = &assetInfo{} }\<close>\<close>

definition ensureAsset :: "string \<Rightarrow> PaperWallet \<Rightarrow> PaperWallet" where
  "ensureAsset k p =
    (case map_of (assets p) k of
       None \<Rightarrow> p\<lparr>assets := assets p @ [(k, \<lparr>Free = 0, Lock = 0\<rparr>)]\<rparr>
     | Some i \<Rightarrow> p)"

text \<open>\<^verbatim>\<open>p.assets[k]\<close> dereferenced. The functions below call \<open>getAsset\<close> only after the
  entry has been created or found present; where the Go code dereferences an entry that
  may be \<^verbatim>\<open>nil\<close>, the model tests for it and returns \<open>NilPointerPanic\<close>.\<close>

definition getAsset :: "PaperWallet \<Rightarrow> string \<Rightarrow> assetInfo" where
  "getAsset p k = (case map_of (assets p) k of Some i \<Rightarrow> i | None \<Rightarrow> \<lparr>Free = 0, Lock = 0\<rparr>)"

text \<open>The updates \<^verbatim>\<open>p.assets[k].Free += d\<close> and \<^verbatim>\<open>p.assets[k].Lock += d\<close> through the
  pointer stored in the map (\<^verbatim>\<open>-=\<close> adds the negated amount).\<close>

definition addFree :: "string \<Rightarrow> float64 \<Rightarrow> PaperWallet \<Rightarrow> PaperWallet" where
  "addFree k d p =
     p\<lparr>assets := AList.update k ((getAsset p k)\<lparr>Free := Free (getAsset p k) + d\<rparr>) (assets p)\<rparr>"

definition addLock :: "string \<Rightarrow> float64 \<Rightarrow> PaperWallet \<Rightarrow> PaperWallet" where
  "addLock k d p =
     p\<lparr>assets := AList.update k ((getAsset p k)\<lparr>Lock := Lock (getAsset p k) + d\<rparr>) (assets p)\<rparr>"

text \<open>\<^verbatim>\<open>func (p *PaperWallet) ID() int64 { p.counter++; return p.counter }\<close>, the increment
  wrapping as \<^verbatim>\<open>int64\<close> does.\<close>

definition wrap64 :: "int \<Rightarrow> int" where
  "wrap64 x = (x + 2 ^ 63) mod 2 ^ 64 - 2 ^ 63"

definition PaperWallet_ID :: "PaperWallet \<Rightarrow> int \<times> PaperWallet" where
  "PaperWallet_ID p = (let c = wrap64 (counter p + 1) in (c, p\<lparr>counter := c\<rparr>))"

section \<open>Average price\<close>

text \<open>\<^verbatim>\<open>updateAveragePrice\<close>. The quantity it reads is the free quantity of the asset at
  the moment of the call. The percentage that the two profit branches print beside the profit
  value is not recorded.\<close>

definition updateAveragePrice ::
  "split \<Rightarrow> SideType \<Rightarrow> string \<Rightarrow> float64 \<Rightarrow> float64 \<Rightarrow> PaperWallet \<Rightarrow> PaperWallet" where
  "updateAveragePrice sp side pair amount value p =
    (let asset = fst (sp pair);
         actualQty = (case map_of (assets p) asset of None \<Rightarrow> 0 | Some i \<Rightarrow> Free i)
     in if actualQty = 0 then
          (if side = SideTypeBuy
           then p\<lparr>avgLongPrice := (avgLongPrice p)(pair \<mapsto> value)\<rparr>
           else p\<lparr>avgShortPrice := (avgShortPrice p)(pair \<mapsto> value)\<rparr>)
        else if actualQty > 0 \<and> side = SideTypeBuy then
          (let positionValue = getF (avgLongPrice p) pair * actualQty
           in p\<lparr>avgLongPrice :=
                  (avgLongPrice p)(pair \<mapsto> (positionValue + amount * value) / (actualQty + amount))\<rparr>)
        else if actualQty > 0 \<and> side = SideTypeSell then
          (let profitValue = amount * value - min amount actualQty * getF (avgLongPrice p) pair;
               p1 = p\<lparr>profitLog := profitLog p @ [profitValue]\<rparr>
           in if amount \<le> actualQty then p1
              else p1\<lparr>avgShortPrice := (avgShortPrice p1)(pair \<mapsto> value)\<rparr>)
        else if actualQty < 0 \<and> side = SideTypeSell then
          (let positionValue = getF (avgShortPrice p) pair * - actualQty
           in p\<lparr>avgShortPrice :=
                  (avgShortPrice p)(pair \<mapsto> (positionValue + amount * value) / (- actualQty + amount))\<rparr>)
        else if actualQty < 0 \<and> side = SideTypeBuy then
          (let profitValue = min amount (- actualQty) * getF (avgShortPrice p) pair - amount * value;
               p1 = p\<lparr>profitLog := profitLog p @ [profitValue]\<rparr>
           in if amount \<le> - actualQty then p1
              else p1\<lparr>avgLongPrice := (avgLongPrice p1)(pair \<mapsto> value)\<rparr>)
        else p)"

section \<open>Fund validation and reservation\<close>

text \<open>\<^verbatim>\<open>validateFunds\<close> returns the error (\<open>None\<close> for \<^verbatim>\<open>nil\<close>) together with the wallet
  as the call leaves it: the two balance entries are created before the funds are compared,
  so they exist also when the call fails. The two branches of
  \<^verbatim>\<open>if side == model.SideTypeSell\<close> are \<open>validateFunds_sell\<close> and \<open>validateFunds_buy\<close>;
  the statements that follow the comparison of the funds in each branch are \<open>reserve_sell\<close>
  and \<open>reserve_buy\<close>.\<close>

definition reserve_sell ::
  "split \<Rightarrow> string \<Rightarrow> float64 \<Rightarrow> float64 \<Rightarrow> bool \<Rightarrow> PaperWallet \<Rightarrow> PaperWallet" where
  "reserve_sell sp pair amount value fill p0 =
    (let asset = fst (sp pair);
         quote = snd (sp pair);
         lockedAsset = min (max (Free (getAsset p0 asset)) 0) amount;
         lockedQuote = (amount - lockedAsset) * value;
         p = addFree asset (- lockedAsset) p0;
         p = addFree quote (- lockedQuote) p
     in if fill then
          (let p = updateAveragePrice sp SideTypeSell pair amount value p
           in if lockedQuote > 0
              then addFree asset (- amount) p
              else addFree quote (amount * value) p)
        else addLock quote lockedQuote (addLock asset lockedAsset p))"

definition validateFunds_sell ::
  "split \<Rightarrow> string \<Rightarrow> float64 \<Rightarrow> float64 \<Rightarrow> bool \<Rightarrow> PaperWallet \<Rightarrow> error option \<times> PaperWallet" where
  "validateFunds_sell sp pair amount value fill p =
    (let asset = fst (sp pair);
         quote = snd (sp pair);
         funds = Free (getAsset p quote);
         funds = (if Free (getAsset p asset) > 0
                  then funds + Free (getAsset p asset) * value else funds)
     in if funds < amount * value then (Some (ErrInsufficientFunds pair amount), p)
        else (None, reserve_sell sp pair amount value fill p))"

text \<open>The liquidation value of a short position, \<^verbatim>\<open>liquidShortValue\<close>, which both the
  comparison of the funds and the reservation of a buy use.\<close>

definition liquidShortValue :: "string \<Rightarrow> string \<Rightarrow> float64 \<Rightarrow> PaperWallet \<Rightarrow> float64" where
  "liquidShortValue asset pair value p =
    (if Free (getAsset p asset) < 0
     then (let v = \<bar>Free (getAsset p asset)\<bar>
           in 2 * v * getF (avgShortPrice p) pair - v * value)
     else 0)"

definition reserve_buy ::
  "split \<Rightarrow> string \<Rightarrow> float64 \<Rightarrow> float64 \<Rightarrow> bool \<Rightarrow> PaperWallet \<Rightarrow> PaperWallet" where
  "reserve_buy sp pair amount value fill p0 =
    (let asset = fst (sp pair);
         quote = snd (sp pair);
         lockedAsset = min (- min (Free (getAsset p0 asset)) 0) amount;
         lockedQuote = (amount - lockedAsset) * value - liquidShortValue asset pair value p0;
         p = addFree asset lockedAsset p0;
         p = addFree quote (- lockedQuote) p
     in if fill then
          (let p = updateAveragePrice sp SideTypeBuy pair amount value p
           in addFree asset (amount - lockedAsset) p)
        else addLock quote lockedQuote (addLock asset lockedAsset p))"

definition validateFunds_buy ::
  "split \<Rightarrow> string \<Rightarrow> float64 \<Rightarrow> float64 \<Rightarrow> bool \<Rightarrow> PaperWallet \<Rightarrow> error option \<times> PaperWallet" where
  "validateFunds_buy sp pair amount value fill p =
    (let asset = fst (sp pair);
         quote = snd (sp pair);
         funds = Free (getAsset p quote);
         funds = (if Free (getAsset p asset) < 0
                  then funds + liquidShortValue asset pair value p else funds);
         amountToBuy = (if Free (getAsset p asset) < 0
                        then amount + Free (getAsset p asset) else amount)
     in if funds < amountToBuy * value then (Some (ErrInsufficientFunds pair amount), p)
        else (None, reserve_buy sp pair amount value fill p))"

definition validateFunds ::
  "split \<Rightarrow> SideType \<Rightarrow> string \<Rightarrow> float64 \<Rightarrow> float64 \<Rightarrow> bool \<Rightarrow> PaperWallet
     \<Rightarrow> error option \<times> PaperWallet" where
  "validateFunds sp side pair amount value fill p0 =
    (let p = ensureAsset (snd (sp pair)) (ensureAsset (fst (sp pair)) p0)
     in if side = SideTypeSell then validateFunds_sell sp pair amount value fill p
        else validateFunds_buy sp pair amount value fill p)"

section \<open>Order placement\<close>

text \<open>Every placement operation returns its result (\<open>Inl\<close> the error) together with the
  wallet as the call leaves it. \<open>ID\<close> of a new order is \<open>0\<close>: the storage assigns it later.\<close>

definition CreateOrderOCO ::
  "split \<Rightarrow> SideType \<Rightarrow> string \<Rightarrow> float64 \<Rightarrow> float64 \<Rightarrow> float64 \<Rightarrow> float64 \<Rightarrow> PaperWallet
     \<Rightarrow> (error + Order list) \<times> PaperWallet" where
  "CreateOrderOCO sp side pair sz price stop stopLimit p0 =
    (if sz = 0 then (Inl ErrInvalidQuantity, p0)
     else case validateFunds sp side pair sz price False p0 of
       (Some err, p) \<Rightarrow> (Inl err, p)
     | (None, p) \<Rightarrow>
        (let (groupID, p) = PaperWallet_ID p;
             (id1, p) = PaperWallet_ID p;
             limitMaker = \<lparr>ID = 0, ExchangeID = id1,
               CreatedAt = CandleTime (getCandle (lastCandle p) pair),
               UpdatedAt = CandleTime (getCandle (lastCandle p) pair),
               OrderPair = pair, Side = side, Type = OrderTypeLimitMaker,
               Status = OrderStatusTypeNew, Price = price, Quantity = sz, Stop = None,
               GroupID = Some groupID, RefPrice = Close (getCandle (lastCandle p) pair),
               Profit = 0\<rparr>;
             (id2, p) = PaperWallet_ID p;
             stopOrder = \<lparr>ID = 0, ExchangeID = id2,
               CreatedAt = CandleTime (getCandle (lastCandle p) pair),
               UpdatedAt = CandleTime (getCandle (lastCandle p) pair),
               OrderPair = pair, Side = side, Type = OrderTypeStopLoss,
               Status = OrderStatusTypeNew, Price = stopLimit, Quantity = sz, Stop = Some stop,
               GroupID = Some groupID, RefPrice = Close (getCandle (lastCandle p) pair),
               Profit = 0\<rparr>
         in (Inr [limitMaker, stopOrder], p\<lparr>orders := orders p @ [limitMaker, stopOrder]\<rparr>)))"

definition CreateOrderLimit ::
  "split \<Rightarrow> SideType \<Rightarrow> string \<Rightarrow> float64 \<Rightarrow> float64 \<Rightarrow> PaperWallet
     \<Rightarrow> (error + Order) \<times> PaperWallet" where
  "CreateOrderLimit sp side pair sz limit p0 =
    (if sz = 0 then (Inl ErrInvalidQuantity, p0)
     else case validateFunds sp side pair sz limit False p0 of
       (Some err, p) \<Rightarrow> (Inl err, p)
     | (None, p) \<Rightarrow>
        (let (id1, p) = PaperWallet_ID p;
             odr = \<lparr>ID = 0, ExchangeID = id1,
               CreatedAt = CandleTime (getCandle (lastCandle p) pair),
               UpdatedAt = CandleTime (getCandle (lastCandle p) pair),
               OrderPair = pair, Side = side, Type = OrderTypeLimit,
               Status = OrderStatusTypeNew, Price = limit, Quantity = sz, Stop = None,
               GroupID = None, RefPrice = 0, Profit = 0\<rparr>
         in (Inr odr, p\<lparr>orders := orders p @ [odr]\<rparr>)))"

definition CreateOrderStop ::
  "split \<Rightarrow> string \<Rightarrow> float64 \<Rightarrow> float64 \<Rightarrow> PaperWallet \<Rightarrow> (error + Order) \<times> PaperWallet" where
  "CreateOrderStop sp pair sz limit p0 =
    (if sz = 0 then (Inl ErrInvalidQuantity, p0)
     else case validateFunds sp SideTypeSell pair sz limit False p0 of
       (Some err, p) \<Rightarrow> (Inl err, p)
     | (None, p) \<Rightarrow>
        (let (id1, p) = PaperWallet_ID p;
             odr = \<lparr>ID = 0, ExchangeID = id1,
               CreatedAt = CandleTime (getCandle (lastCandle p) pair),
               UpdatedAt = CandleTime (getCandle (lastCandle p) pair),
               OrderPair = pair, Side = SideTypeSell, Type = OrderTypeStopLossLimit,
               Status = OrderStatusTypeNew, Price = limit, Quantity = sz, Stop = Some limit,
               GroupID = None, RefPrice = 0, Profit = 0\<rparr>
         in (Inr odr, p\<lparr>orders := orders p @ [odr]\<rparr>)))"

text \<open>\<^verbatim>\<open>createOrderMarket\<close>, which \<^verbatim>\<open>CreateOrderMarket\<close> calls under the mutex.\<close>

definition createOrderMarket ::
  "split \<Rightarrow> SideType \<Rightarrow> string \<Rightarrow> float64 \<Rightarrow> PaperWallet \<Rightarrow> (error + Order) \<times> PaperWallet" where
  "createOrderMarket sp side pair sz p0 =
    (if sz = 0 then (Inl ErrInvalidQuantity, p0)
     else case validateFunds sp side pair sz (Close (getCandle (lastCandle p0) pair)) True p0 of
       (Some err, p) \<Rightarrow> (Inl err, p)
     | (None, p) \<Rightarrow>
        (let p = (if volume p pair = None then p\<lparr>volume := (volume p)(pair \<mapsto> 0)\<rparr> else p);
             p = p\<lparr>volume := (volume p)(pair \<mapsto>
                    getF (volume p) pair + Close (getCandle (lastCandle p) pair) * sz)\<rparr>;
             (id1, p) = PaperWallet_ID p;
             odr = \<lparr>ID = 0, ExchangeID = id1,
               CreatedAt = CandleTime (getCandle (lastCandle p) pair),
               UpdatedAt = CandleTime (getCandle (lastCandle p) pair),
               OrderPair = pair, Side = side, Type = OrderTypeMarket,
               Status = OrderStatusTypeFilled, Price = Close (getCandle (lastCandle p) pair),
               Quantity = sz, Stop = None, GroupID = None, RefPrice = 0, Profit = 0\<rparr>
         in (Inr odr, p\<lparr>orders := orders p @ [odr]\<rparr>)))"

definition CreateOrderMarket ::
  "split \<Rightarrow> SideType \<Rightarrow> string \<Rightarrow> float64 \<Rightarrow> PaperWallet \<Rightarrow> (error + Order) \<times> PaperWallet" where
  "CreateOrderMarket sp side pair sz p = createOrderMarket sp side pair sz p"

section \<open>Cancellation\<close>

text \<open>The loop of \<^verbatim>\<open>Cancel\<close> over \<^verbatim>\<open>p.orders\<close>.\<close>

fun Cancel_loop :: "int \<Rightarrow> Order list \<Rightarrow> Order list" where
  "Cancel_loop e [] = []"
| "Cancel_loop e (x # xs) =
    (if ExchangeID x = e then x\<lparr>Status := OrderStatusTypeCanceled\<rparr> else x) # Cancel_loop e xs"

definition Cancel :: "Order \<Rightarrow> PaperWallet \<Rightarrow> error option \<times> PaperWallet" where
  "Cancel odr p = (None, p\<lparr>orders := Cancel_loop (ExchangeID odr) (orders p)\<rparr>)"

text \<open>\<^verbatim>\<open>Order(pair, id)\<close>: the first order of the log with that exchange id.\<close>

fun PaperWallet_Order_loop :: "int \<Rightarrow> Order list \<Rightarrow> Order option" where
  "PaperWallet_Order_loop e [] = None"
| "PaperWallet_Order_loop e (x # xs) =
    (if ExchangeID x = e then Some x else PaperWallet_Order_loop e xs)"

section \<open>Bar ingestion\<close>

definition isLimitSellType :: "OrderType \<Rightarrow> bool" where
  "isLimitSellType t \<longleftrightarrow>
     t = OrderTypeLimit \<or> t = OrderTypeLimitMaker \<or> t = OrderTypeTakeProfit
       \<or> t = OrderTypeTakeProfitLimit"

definition isStopSellType :: "OrderType \<Rightarrow> bool" where
  "isStopSellType t \<longleftrightarrow> t = OrderTypeStopLossLimit \<or> t = OrderTypeStopLoss"

text \<open>The price at which a pending sell fills on a bar: \<open>Inr None\<close> is the branch
  \<^verbatim>\<open>continue\<close>, \<open>Inl NilPointerPanic\<close> the dereference of a \<^verbatim>\<open>nil\<close> stop price.\<close>

definition sellOrderPrice :: "Candle \<Rightarrow> Order \<Rightarrow> error + float64 option" where
  "sellOrderPrice candle odr =
    (if isLimitSellType (Type odr) \<and> High candle \<ge> Price odr then Inr (Some (Price odr))
     else if isStopSellType (Type odr) then
       (case Stop odr of
          None \<Rightarrow> Inl NilPointerPanic
        | Some st \<Rightarrow> if Low candle \<le> st then Inr (Some st) else Inr None)
     else Inr None)"

text \<open>The inner loop that cancels the first other order of the same group and stops
  (\<^verbatim>\<open>break\<close>).\<close>

fun cancelGroupOrder :: "int \<Rightarrow> int \<Rightarrow> time \<Rightarrow> Order list \<Rightarrow> Order list" where
  "cancelGroupOrder g e t [] = []"
| "cancelGroupOrder g e t (x # xs) =
    (if GroupID x = Some g \<and> ExchangeID x \<noteq> e
     then x\<lparr>Status := OrderStatusTypeCanceled, UpdatedAt := t\<rparr> # xs
     else x # cancelGroupOrder g e t xs)"

text \<open>The body of \<^verbatim>\<open>if order.Side == model.SideTypeBuy && order.Price >= candle.Close\<close>.\<close>

definition OnCandle_buy :: "split \<Rightarrow> Candle \<Rightarrow> nat \<Rightarrow> Order \<Rightarrow> PaperWallet \<Rightarrow> error + PaperWallet" where
  "OnCandle_buy sp candle i odr p0 =
    (let asset = fst (sp (OrderPair odr));
         quote = snd (sp (OrderPair odr));
         p = ensureAsset asset p0;
         p = p\<lparr>volume := (volume p)(CandlePair candle \<mapsto>
                getF (volume p) (CandlePair candle) + Price odr * Quantity odr)\<rparr>;
         p = p\<lparr>orders := (orders p)[i := (orders p ! i)\<lparr>UpdatedAt := CandleTime candle,
                Status := OrderStatusTypeFilled\<rparr>]\<rparr>;
         p = updateAveragePrice sp (Side odr) (OrderPair odr) (Quantity odr) (Price odr) p;
         p = addFree asset (Quantity odr) p
     in case map_of (assets p) quote of
          None \<Rightarrow> Inl NilPointerPanic
        | Some qi \<Rightarrow> Inr (addLock quote (- (Price odr * Quantity odr)) p))"

text \<open>The body of \<^verbatim>\<open>if order.Side == model.SideTypeSell\<close>.\<close>

definition OnCandle_sell :: "split \<Rightarrow> Candle \<Rightarrow> nat \<Rightarrow> Order \<Rightarrow> PaperWallet \<Rightarrow> error + PaperWallet" where
  "OnCandle_sell sp candle i odr p0 =
    (case sellOrderPrice candle odr of
       Inl e \<Rightarrow> Inl e
     | Inr None \<Rightarrow> Inr p0
     | Inr (Some orderPrice) \<Rightarrow>
        (let asset = fst (sp (OrderPair odr));
             quote = snd (sp (OrderPair odr));
             p = (case GroupID odr of
                    None \<Rightarrow> p0
                  | Some g \<Rightarrow> p0\<lparr>orders :=
                      cancelGroupOrder g (ExchangeID odr) (CandleTime candle) (orders p0)\<rparr>);
             p = ensureAsset quote p;
             orderVolume = Quantity odr * orderPrice;
             p = p\<lparr>volume := (volume p)(CandlePair candle \<mapsto>
                    getF (volume p) (CandlePair candle) + orderVolume)\<rparr>;
             p = p\<lparr>orders := (orders p)[i := (orders p ! i)\<lparr>UpdatedAt := CandleTime candle,
                    Status := OrderStatusTypeFilled\<rparr>]\<rparr>;
             p = updateAveragePrice sp (Side odr) (OrderPair odr) (Quantity odr) orderPrice p
         in case map_of (assets p) asset of
              None \<Rightarrow> Inl NilPointerPanic
            | Some ai \<Rightarrow>
                Inr (addFree quote (Quantity odr * orderPrice)
                       (addLock asset (- Quantity odr) p))))"

text \<open>One iteration of \<^verbatim>\<open>for i, order := range p.orders\<close>: \<open>order\<close> is the copy of
  \<^verbatim>\<open>p.orders[i]\<close> taken when the iteration starts.\<close>

definition OnCandle_order :: "split \<Rightarrow> Candle \<Rightarrow> nat \<Rightarrow> PaperWallet \<Rightarrow> error + PaperWallet" where
  "OnCandle_order sp candle i p0 =
    (let odr = orders p0 ! i
     in if OrderPair odr \<noteq> CandlePair candle \<or> Status odr \<noteq> OrderStatusTypeNew then Inr p0
        else
         (let p = (if volume p0 (CandlePair candle) = None
                   then p0\<lparr>volume := (volume p0)(CandlePair candle \<mapsto> 0)\<rparr> else p0)
          in case (if Side odr = SideTypeBuy \<and> Price odr \<ge> Close candle
                   then OnCandle_buy sp candle i odr p else Inr p) of
               Inl e \<Rightarrow> Inl e
             | Inr p1 \<Rightarrow>
                 if Side odr = SideTypeSell then OnCandle_sell sp candle i odr p1 else Inr p1))"

fun OnCandle_orders :: "split \<Rightarrow> Candle \<Rightarrow> nat list \<Rightarrow> PaperWallet \<Rightarrow> error + PaperWallet" where
  "OnCandle_orders sp candle [] p = Inr p"
| "OnCandle_orders sp candle (i # is) p =
    (case OnCandle_order sp candle i p of
       Inl e \<Rightarrow> Inl e
     | Inr p1 \<Rightarrow> OnCandle_orders sp candle is p1)"

text \<open>\<^verbatim>\<open>strings.ToUpper\<close> on ASCII letters.\<close>

definition ToUpper :: "string \<Rightarrow> string" where
  "ToUpper s = map (\<lambda>c. let n = (of_char c :: nat)
                        in if 97 \<le> n \<and> n \<le> 122 then char_of (n - 32) else c) s"

text \<open>The loop \<^verbatim>\<open>for asset, info := range p.assets\<close> of the valuation on a complete bar;
  the accumulator holds \<^verbatim>\<open>total\<close> (\<open>tot\<close>) and \<^verbatim>\<open>p.assetValues\<close>.\<close>

fun valueAssets ::
  "PaperWallet \<Rightarrow> time \<Rightarrow> (string \<times> assetInfo) list \<Rightarrow> float64 \<times> (string \<rightharpoonup> AssetValue list)
     \<Rightarrow> float64 \<times> (string \<rightharpoonup> AssetValue list)" where
  "valueAssets p t [] acc = acc"
| "valueAssets p t ((asset, info) # rest) (tot, av) =
    (let amount = Free info + Lock info;
         pair = ToUpper (asset @ baseCoin p);
         cl = Close (getCandle (lastCandle p) pair);
         tot1 = (if amount < 0
                   then (let v = \<bar>amount\<bar>
                         in tot + (2 * v * getF (avgShortPrice p) pair - v * cl))
                   else tot + amount * cl);
         old = (case av asset of None \<Rightarrow> [] | Some l \<Rightarrow> l)
     in valueAssets p t rest
          (tot1, av(asset \<mapsto> old @ [\<lparr>Time = t, Value = amount * cl\<rparr>])))"

definition OnCandle_complete :: "Candle \<Rightarrow> PaperWallet \<Rightarrow> error + PaperWallet" where
  "OnCandle_complete candle p =
    (let (tot, av) = valueAssets p (CandleTime candle) (assets p) (0, assetValues p);
         p1 = p\<lparr>assetValues := av\<rparr>
     in case map_of (assets p1) (baseCoin p1) of
          None \<Rightarrow> Inl NilPointerPanic
        | Some baseCoinInfo \<Rightarrow>
            Inr (p1\<lparr>equityValues := equityValues p1 @
                   [\<lparr>Time = CandleTime candle,
                     Value = tot + Lock baseCoinInfo + Free baseCoinInfo\<rparr>]\<rparr>))"

text \<open>\<^verbatim>\<open>PaperWallet.OnCandle\<close>. The slice \<^verbatim>\<open>p.orders\<close> keeps its length during the loop,
  so the loop visits the indices \<open>0, \<dots>, length (orders p) - 1\<close>.\<close>

definition PaperWallet_OnCandle :: "split \<Rightarrow> Candle \<Rightarrow> PaperWallet \<Rightarrow> error + PaperWallet" where
  "PaperWallet_OnCandle sp candle p0 =
    (let p = p0\<lparr>lastCandle := (lastCandle p0)(CandlePair candle \<mapsto> candle)\<rparr>;
         p = (if fistCandle p (CandlePair candle) = None
              then p\<lparr>fistCandle := (fistCandle p)(CandlePair candle \<mapsto> candle)\<rparr> else p)
     in case OnCandle_orders sp candle [0..<length (orders p)] p of
          Inl e \<Rightarrow> Inl e
        | Inr p1 \<Rightarrow> if Complete candle then OnCandle_complete candle p1 else Inr p1)"

section \<open>Construction\<close>



definition emptyWallet :: "string \<Rightarrow> PaperWallet" where
  "emptyWallet base = \<lparr>baseCoin = base, counter = 0, takerFee = 0, makerFee = 0,
     initialValue = 0, orders = [], assets = [], avgShortPrice = Map.empty,
     avgLongPrice = Map.empty, volume = Map.empty, lastCandle = Map.empty,
     fistCandle = Map.empty, assetValues = Map.empty, equityValues = [], profitLog = []\<rparr>"


section \<open>The engine's operations\<close>

text \<open>The operations a caller performs on the wallet, and a run of them. An error of a
  placement is returned to the caller and the run goes on with the wallet as the call left
  it; a panic ends the run (\<open>None\<close>).\<close>

datatype Operation =
    OpOCO SideType string float64 float64 float64 float64
  | OpLimit SideType string float64 float64
  | OpStop string float64 float64
  | OpMarket SideType string float64
  | OpCancel Order
  | OpCandle Candle

fun step :: "split \<Rightarrow> Operation \<Rightarrow> PaperWallet \<Rightarrow> error + (error option \<times> PaperWallet)" where
  "step sp (OpOCO side pair sz price stop stopLimit) p =
     (case CreateOrderOCO sp side pair sz price stop stopLimit p of
        (Inl e, p1) \<Rightarrow> Inr (Some e, p1) | (Inr os, p1) \<Rightarrow> Inr (None, p1))"
| "step sp (OpLimit side pair sz limit) p =
     (case CreateOrderLimit sp side pair sz limit p of
        (Inl e, p1) \<Rightarrow> Inr (Some e, p1) | (Inr x, p1) \<Rightarrow> Inr (None, p1))"
| "step sp (OpStop pair sz limit) p =
     (case CreateOrderStop sp pair sz limit p of
        (Inl e, p1) \<Rightarrow> Inr (Some e, p1) | (Inr x, p1) \<Rightarrow> Inr (None, p1))"
| "step sp (OpMarket side pair sz) p =
     (case CreateOrderMarket sp side pair sz p of
        (Inl e, p1) \<Rightarrow> Inr (Some e, p1) | (Inr x, p1) \<Rightarrow> Inr (None, p1))"
| "step sp (OpCancel odr) p = Inr (Cancel odr p)"
| "step sp (OpCandle candle) p =
     (case PaperWallet_OnCandle sp candle p of Inl e \<Rightarrow> Inl e | Inr p1 \<Rightarrow> Inr (None, p1))"


section \<open>The order controller: profit by replay\<close>

text \<open>Modelled from the spec: the Storage capability (package \<^verbatim>\<open>storage\<close>) is not among
  the sources. The spec gives it \<^verbatim>\<open>CreateOrder\<close>, \<^verbatim>\<open>UpdateOrder\<close> and
  \<^verbatim>\<open>Orders(filters\<dots>)\<close> with filters by status, by pair and by update-time upper bound,
  and gives every order a unique id. The storage is the list of the orders in the order of
  their creation; \<open>storage_CreateOrder\<close> assigns the next id.\<close>

definition storage_CreateOrder :: "Order \<Rightarrow> Order list \<Rightarrow> Order \<times> Order list" where
  "storage_CreateOrder odr st =
     (let x = odr\<lparr>ID := int (length st) + 1\<rparr> in (x, st @ [x]))"

text \<open>Modelled from the spec: the query \<^verbatim>\<open>Orders(WithUpdateAtBeforeOrEqual(t),
  WithStatus(s), WithPair(pair))\<close> of the Storage capability.\<close>

definition storage_Orders ::
  "Order list \<Rightarrow> time \<Rightarrow> OrderStatusType \<Rightarrow> string \<Rightarrow> error + Order list" where
  "storage_Orders st t s pair =
     Inr (filter (\<lambda>x. UpdatedAt x \<le> t \<and> Status x = s \<and> OrderPair x = pair) st)"

text \<open>The execution price that \<^verbatim>\<open>calculateProfit\<close> reads from an order: the stop price of
  a stop order (a \<^verbatim>\<open>nil\<close> pointer panics), the price otherwise.\<close>

definition executionPrice :: "Order \<Rightarrow> error + float64" where
  "executionPrice x =
     (if Type x = OrderTypeStopLoss \<or> Type x = OrderTypeStopLossLimit
      then (case Stop x of None \<Rightarrow> Inl NilPointerPanic | Some st \<Rightarrow> Inr st)
      else Inr (Price x))"

text \<open>The loop of \<^verbatim>\<open>calculateProfit\<close> over the stored orders; the accumulator is
  \<open>(quantity, avgPriceLong, avgPriceShort)\<close>.\<close>

fun calculateProfit_loop ::
  "Order \<Rightarrow> Order list \<Rightarrow> float64 \<times> float64 \<times> float64 \<Rightarrow> error + float64 \<times> float64 \<times> float64" where
  "calculateProfit_loop x [] acc = Inr acc"
| "calculateProfit_loop x (odr # rest) (quantity, avgPriceLong, avgPriceShort) =
    (if ID x = ID odr then calculateProfit_loop x rest (quantity, avgPriceLong, avgPriceShort)
     else case executionPrice odr of
       Inl e \<Rightarrow> Inl e
     | Inr price \<Rightarrow>
        (let diff = (if Side odr = SideTypeSell then - Quantity odr else Quantity odr);
             long = (Side odr = SideTypeBuy \<and> quantity + diff \<ge> 0);
             short = (\<not> long \<and> Side odr = SideTypeSell \<and> quantity + diff \<le> 0);
             avgPriceLong1 = (if long
                then (Quantity odr * price + avgPriceLong * \<bar>quantity\<bar>)
                       / (Quantity odr + \<bar>quantity\<bar>)
                else avgPriceLong);
             avgPriceShort1 = (if short
                then (Quantity odr * price + avgPriceShort * \<bar>quantity\<bar>)
                       / (Quantity odr + \<bar>quantity\<bar>)
                else avgPriceShort);
             quantity1 = (if Side odr = SideTypeBuy then quantity + Quantity odr
                          else quantity - Quantity odr)
         in calculateProfit_loop x rest (quantity1, avgPriceLong1, avgPriceShort1)))"

text \<open>\<^verbatim>\<open>calculateProfit\<close>: the profit value and the profit fraction of the order \<open>x\<close>.\<close>

definition calculateProfit :: "Order list \<Rightarrow> Order \<Rightarrow> error + float64 \<times> float64" where
  "calculateProfit st x =
    (case storage_Orders st (UpdatedAt x) OrderStatusTypeFilled (OrderPair x) of
       Inl e \<Rightarrow> Inl e
     | Inr os \<Rightarrow>
        (case calculateProfit_loop x os (0, 0, 0) of
           Inl e \<Rightarrow> Inl e
         | Inr (quantity, avgPriceLong, avgPriceShort) \<Rightarrow>
            if quantity = 0 then Inr (0, 0)
            else if Side x = SideTypeBuy \<and> quantity < 0 then
              (case executionPrice x of
                 Inl e \<Rightarrow> Inl e
               | Inr price \<Rightarrow>
                  (let profitValue = (avgPriceShort - price) * Quantity x
                   in Inr (profitValue, profitValue / Quantity x / avgPriceShort)))
            else if Side x = SideTypeSell \<and> quantity > 0 then
              (case executionPrice x of
                 Inl e \<Rightarrow> Inl e
               | Inr price \<Rightarrow>
                  (let profitValue = (price - avgPriceLong) * Quantity x
                   in Inr (profitValue, profitValue / Quantity x / avgPriceLong)))
            else Inr (0, 0)))"

record summary =
  SummaryPair :: string
  WinLong :: "float64 list"
  WinShort :: "float64 list"
  LoseLong :: "float64 list"
  LoseShort :: "float64 list"
  SummaryVolume :: float64

text \<open>The order controller over the simulated exchange. The notifier, the order feed and the
  reconciliation ticker are not modelled.\<close>

record Controller =
  exchange :: PaperWallet
  storage :: "Order list"
  Results :: "string \<rightharpoonup> summary"
  lastPrice :: "string \<rightharpoonup> float64"

definition getSummary :: "Controller \<Rightarrow> string \<Rightarrow> summary" where
  "getSummary c pair =
     (case Results c pair of
        Some s \<Rightarrow> s
      | None \<Rightarrow> \<lparr>SummaryPair = pair, WinLong = [], WinShort = [], LoseLong = [], LoseShort = [],
                  SummaryVolume = 0\<rparr>)"

text \<open>\<^verbatim>\<open>processTrade\<close> works on the caller's copy of the order, whose \<^verbatim>\<open>Profit\<close> it sets,
  and on \<^verbatim>\<open>c.Results\<close>.\<close>

definition processTrade :: "Order \<Rightarrow> Controller \<Rightarrow> Order \<times> Controller" where
  "processTrade odr c0 =
    (if Status odr \<noteq> OrderStatusTypeFilled then (odr, c0)
     else
      (let c = c0\<lparr>Results := (Results c0)(OrderPair odr \<mapsto> getSummary c0 (OrderPair odr))\<rparr>;
           s = getSummary c (OrderPair odr);
           s = s\<lparr>SummaryVolume := SummaryVolume s + Price odr * Quantity odr\<rparr>;
           c = c\<lparr>Results := (Results c)(OrderPair odr \<mapsto> s)\<rparr>
       in case calculateProfit (storage c) odr of
            Inl e \<Rightarrow> (odr, c)
          | Inr (profitValue, profit) \<Rightarrow>
             (let odr1 = odr\<lparr>Profit := profit\<rparr>
              in if profitValue = 0 then (odr1, c)
                 else if profitValue > 0 then
                   (if Side odr = SideTypeBuy
                    then (odr1, c\<lparr>Results := (Results c)(OrderPair odr \<mapsto>
                            s\<lparr>WinLong := WinLong s @ [profitValue]\<rparr>)\<rparr>)
                    else (odr1, c\<lparr>Results := (Results c)(OrderPair odr \<mapsto>
                            s\<lparr>WinShort := WinShort s @ [profitValue]\<rparr>)\<rparr>))
                 else
                   (if Side odr = SideTypeBuy
                    then (odr1, c\<lparr>Results := (Results c)(OrderPair odr \<mapsto>
                            s\<lparr>LoseLong := LoseLong s @ [profitValue]\<rparr>)\<rparr>)
                    else (odr1, c\<lparr>Results := (Results c)(OrderPair odr \<mapsto>
                            s\<lparr>LoseShort := LoseShort s @ [profitValue]\<rparr>)\<rparr>)))))"

text \<open>\<^verbatim>\<open>Controller.CreateOrderMarket\<close>: place the order at the exchange, store it, attribute
  its profit.\<close>

definition Controller_CreateOrderMarket ::
  "split \<Rightarrow> SideType \<Rightarrow> string \<Rightarrow> float64 \<Rightarrow> Controller \<Rightarrow> (error + Order) \<times> Controller" where
  "Controller_CreateOrderMarket sp side pair sz c =
    (case CreateOrderMarket sp side pair sz (exchange c) of
       (Inl e, w) \<Rightarrow> (Inl e, c\<lparr>exchange := w\<rparr>)
     | (Inr odr, w) \<Rightarrow>
        (let (stored, st) = storage_CreateOrder odr (storage c);
             (odr1, c1) = processTrade stored (c\<lparr>exchange := w, storage := st\<rparr>)
         in (Inr odr1, c1)))"

text \<open>\<^verbatim>\<open>Controller.OnCandle\<close> of the order controller.\<close>

definition Controller_OnCandle :: "Candle \<Rightarrow> Controller \<Rightarrow> Controller" where
  "Controller_OnCandle candle c = c\<lparr>lastPrice := (lastPrice c)(CandlePair candle \<mapsto> Close candle)\<rparr>"

section \<open>The strategy controller\<close>

text \<open>\<^verbatim>\<open>model.Dataframe\<close>, with the fields that \<^verbatim>\<open>updateDataFrame\<close> writes.\<close>

record Dataframe =
  DfPair :: string
  DfClose :: "float64 list"
  DfOpen :: "float64 list"
  DfHigh :: "float64 list"
  DfLow :: "float64 list"
  DfVolume :: "float64 list"
  DfTime :: "time list"
  DfLastUpdate :: time
  DfMetadata :: "string \<rightharpoonup> float64 list"

text \<open>The \<^verbatim>\<open>Strategy\<close> interface. \<open>'e\<close> is whatever the strategy acts on through the
  broker and its own fields; both callbacks receive the dataframe by pointer and may
  write it.\<close>

record 'e Strategy =
  WarmupPeriod :: int
  Indicators :: "Dataframe \<Rightarrow> Dataframe"
  StrategyOnCandle :: "Dataframe \<Rightarrow> 'e \<Rightarrow> Dataframe \<times> 'e"

text \<open>The strategy controller; \<open>lateCandles\<close> records the bars reported with
  \<^verbatim>\<open>log.Errorf("late candle received: ...")\<close>.\<close>

record 'e StrategyController =
  dataframe :: Dataframe
  broker :: 'e
  started :: bool
  lateCandles :: "Candle list"

text \<open>An indexed write \<^verbatim>\<open>xs[i] = v\<close>, which panics out of range.\<close>

definition setAt :: "'a list \<Rightarrow> nat \<Rightarrow> 'a \<Rightarrow> error + 'a list" where
  "setAt xs i v = (if i < length xs then Inr (xs[i := v]) else Inl IndexOutOfRangePanic)"

text \<open>The two loops of \<^verbatim>\<open>updateDataFrame\<close> over the bar's metadata.\<close>

fun setMetadata ::
  "nat \<Rightarrow> (string \<times> float64) list \<Rightarrow> (string \<rightharpoonup> float64 list) \<Rightarrow> error + (string \<rightharpoonup> float64 list)" where
  "setMetadata i [] m = Inr m"
| "setMetadata i ((k, v) # rest) m =
    (case setAt (case m k of None \<Rightarrow> [] | Some l \<Rightarrow> l) i v of
       Inl e \<Rightarrow> Inl e
     | Inr l \<Rightarrow> setMetadata i rest (m(k \<mapsto> l)))"

fun appendMetadata ::
  "(string \<times> float64) list \<Rightarrow> (string \<rightharpoonup> float64 list) \<Rightarrow> (string \<rightharpoonup> float64 list)" where
  "appendMetadata [] m = m"
| "appendMetadata ((k, v) # rest) m =
    appendMetadata rest (m(k \<mapsto> (case m k of None \<Rightarrow> [] | Some l \<Rightarrow> l) @ [v]))"

definition updateDataFrame :: "Candle \<Rightarrow> Dataframe \<Rightarrow> error + Dataframe" where
  "updateDataFrame candle df =
    (if length (DfTime df) > 0 \<and> CandleTime candle = DfTime df ! (length (DfTime df) - 1) then
       (let i = length (DfTime df) - 1
        in case setAt (DfClose df) i (Close candle) of Inl e \<Rightarrow> Inl e | Inr c \<Rightarrow>
           case setAt (DfOpen df) i (Open candle) of Inl e \<Rightarrow> Inl e | Inr op \<Rightarrow>
           case setAt (DfHigh df) i (High candle) of Inl e \<Rightarrow> Inl e | Inr h \<Rightarrow>
           case setAt (DfLow df) i (Low candle) of Inl e \<Rightarrow> Inl e | Inr l \<Rightarrow>
           case setAt (DfVolume df) i (Volume candle) of Inl e \<Rightarrow> Inl e | Inr v \<Rightarrow>
           case setMetadata i (Metadata candle) (DfMetadata df) of Inl e \<Rightarrow> Inl e | Inr m \<Rightarrow>
             Inr (df\<lparr>DfClose := c, DfOpen := op, DfHigh := h, DfLow := l, DfVolume := v,
                     DfTime := (DfTime df)[i := CandleTime candle], DfMetadata := m\<rparr>))
     else
       Inr (df\<lparr>DfClose := DfClose df @ [Close candle], DfOpen := DfOpen df @ [Open candle],
               DfHigh := DfHigh df @ [High candle], DfLow := DfLow df @ [Low candle],
               DfVolume := DfVolume df @ [Volume candle],
               DfTime := DfTime df @ [CandleTime candle], DfLastUpdate := CandleTime candle,
               DfMetadata := appendMetadata (Metadata candle) (DfMetadata df)\<rparr>))"

text \<open>\<^verbatim>\<open>Controller.OnCandle\<close> of package \<^verbatim>\<open>strategy\<close>.\<close>

definition StrategyController_OnCandle ::
  "'e Strategy \<Rightarrow> Candle \<Rightarrow> 'e StrategyController \<Rightarrow> error + 'e StrategyController" where
  "StrategyController_OnCandle strat candle s =
    (if length (DfTime (dataframe s)) > 0
        \<and> CandleTime candle < DfTime (dataframe s) ! (length (DfTime (dataframe s)) - 1)
     then Inr (s\<lparr>lateCandles := lateCandles s @ [candle]\<rparr>)
     else case updateDataFrame candle (dataframe s) of
       Inl e \<Rightarrow> Inl e
     | Inr df \<Rightarrow>
        if int (length (DfClose df)) \<ge> WarmupPeriod strat then
          (let df1 = Indicators strat df
           in if started s then
                (let (df2, b) = StrategyOnCandle strat df1 (broker s)
                 in Inr (s\<lparr>dataframe := df2, broker := b\<rparr>))
              else Inr (s\<lparr>dataframe := df1\<rparr>))
        else Inr (s\<lparr>dataframe := df\<rparr>))"

section \<open>Concrete scenarios\<close>

text \<open>A pair \<^verbatim>\<open>XUSDT\<close> of an asset \<^verbatim>\<open>X\<close> quoted in \<^verbatim>\<open>USDT\<close>, complete bars on it, and
  a wallet that starts with 10000 \<^verbatim>\<open>USDT\<close>.\<close>

definition splitX :: split where
  "splitX pair = (if pair = ''XUSDT'' then (''X'', ''USDT'') else ([], []))"

definition bar :: "time \<Rightarrow> float64 \<Rightarrow> Candle" where
  "bar t c = \<lparr>CandlePair = ''XUSDT'', CandleTime = t, Open = c, Close = c, Low = c, High = c,
     Volume = 0, Complete = True, Metadata = []\<rparr>"

definition wallet0 :: PaperWallet where
  "wallet0 = (emptyWallet ''USDT'')\<lparr>assets := [(''USDT'', \<lparr>Free = 10000, Lock = 0\<rparr>)],
     initialValue := 10000\<rparr>"

text \<open>The wallet after the first bar, of close 10 at time 1.\<close>

definition wallet1 :: PaperWallet where
  "wallet1 = projr (PaperWallet_OnCandle splitX (bar 1 10) wallet0)"



text \<open>A market buy of 2000 units at the close of 10, which 10000 \<^verbatim>\<open>USDT\<close> do not pay.\<close>

definition c7_after :: PaperWallet where
  "c7_after = snd (projr (step splitX (OpMarket SideTypeBuy ''XUSDT'' 2000) wallet1))"

text \<open>The wallet after a second bar, of close 12 at time 2.\<close>

definition wallet2 :: PaperWallet where
  "wallet2 = projr (PaperWallet_OnCandle splitX (bar 2 12) wallet1)"

text \<open>An order controller over the wallet after the first bar, with an empty storage.\<close>

definition controller1 :: Controller where
  "controller1 = \<lparr>exchange = wallet1, storage = [], Results = Map.empty, lastPrice = Map.empty\<rparr>"

text \<open>The scenario of the spec: a market buy of 50 on the first bar (close 10), bars of
  close 12 and 8, a market sell of 50 on the third bar.\<close>

definition c3_buy :: "(error + Order) \<times> Controller" where
  "c3_buy = Controller_CreateOrderMarket splitX SideTypeBuy ''XUSDT'' 50 controller1"

definition c3_bar2 :: "error + PaperWallet" where
  "c3_bar2 = PaperWallet_OnCandle splitX (bar 2 12) (exchange (snd c3_buy))"

definition c3_bar3 :: "error + PaperWallet" where
  "c3_bar3 = PaperWallet_OnCandle splitX (bar 3 8) (projr c3_bar2)"

definition c3_sell :: "(error + Order) \<times> Controller" where
  "c3_sell = Controller_CreateOrderMarket splitX SideTypeSell ''XUSDT'' 50
     ((snd c3_buy)\<lparr>exchange := projr c3_bar3\<rparr>)"

text \<open>A market buy of 100 at 10, a bar of close 8, a market sell of 60.\<close>

definition c1_buy :: "(error + Order) \<times> Controller" where
  "c1_buy = Controller_CreateOrderMarket splitX SideTypeBuy ''XUSDT'' 100 controller1"

definition c1_bar2 :: "error + PaperWallet" where
  "c1_bar2 = PaperWallet_OnCandle splitX (bar 2 8) (exchange (snd c1_buy))"

definition c1_sell :: "(error + Order) \<times> Controller" where
  "c1_sell = Controller_CreateOrderMarket splitX SideTypeSell ''XUSDT'' 60
     ((snd c1_buy)\<lparr>exchange := projr c1_bar2\<rparr>)"

text \<open>A buy-side OCO order of 50 units, limit price 9, stop and stop-limit price 11, placed
  after the first bar, and a bar of close 9.\<close>

definition c4_oco :: "(error + Order list) \<times> PaperWallet" where
  "c4_oco = CreateOrderOCO splitX SideTypeBuy ''XUSDT'' 50 9 11 11 wallet1"

definition c4_bar2 :: "error + PaperWallet" where
  "c4_bar2 = PaperWallet_OnCandle splitX (bar 2 9) (snd c4_oco)"

text \<open>A limit buy at 11 placed after the second bar, then a bar whose time, 1, is before the
  time of the last bar seen, 2.\<close>

definition c5_limit :: "(error + Order) \<times> PaperWallet" where
  "c5_limit = CreateOrderLimit splitX SideTypeBuy ''XUSDT'' 50 11 wallet2"

definition c5_stale :: "error + PaperWallet" where
  "c5_stale = PaperWallet_OnCandle splitX (bar 1 10) (snd c5_limit)"

text \<open>A strategy that does nothing, and a started strategy controller that has seen the
  bars of times 1 and 2.\<close>

definition c5_strategy :: "unit Strategy" where
  "c5_strategy = \<lparr>WarmupPeriod = 0, Indicators = (\<lambda>df. df),
     StrategyOnCandle = (\<lambda>df b. (df, b))\<rparr>"

definition c5_controller :: "unit StrategyController" where
  "c5_controller = \<lparr>dataframe = \<lparr>DfPair = ''XUSDT'', DfClose = [10, 12], DfOpen = [10, 12],
       DfHigh = [10, 12], DfLow = [10, 12], DfVolume = [0, 0], DfTime = [1, 2],
       DfLastUpdate = 2, DfMetadata = Map.empty\<rparr>,
     broker = (), started = True, lateCandles = []\<rparr>"

text \<open>The wallet after a market buy of 50 on the first bar; its log holds one filled order.\<close>

definition c6_wallet :: PaperWallet where
  "c6_wallet = snd (createOrderMarket splitX SideTypeBuy ''XUSDT'' 50 wallet1)"




section \<open>Predicates of the statements\<close>




text \<open>\<open>balancesKept p q\<close>: every balance entry of \<open>p\<close> is an entry of \<open>q\<close> with the same
  free and locked quantities, every entry of \<open>q\<close> that \<open>p\<close> lacks holds zero free and zero
  locked, and \<open>q\<close> differs from \<open>p\<close> in nothing but the map of balances.\<close>

definition balancesKept :: "PaperWallet \<Rightarrow> PaperWallet \<Rightarrow> bool" where
  "balancesKept p q \<longleftrightarrow>
     (\<forall>k i. map_of (assets p) k = Some i \<longrightarrow> map_of (assets q) k = Some i)
   \<and> (\<forall>k i. map_of (assets q) k = Some i \<longrightarrow> map_of (assets p) k = None
          \<longrightarrow> Free i = 0 \<and> Lock i = 0)
   \<and> q = p\<lparr>assets := assets q\<rparr>"

text \<open>Success of a fallible call.\<close>

definition succeeded :: "error + 'a \<Rightarrow> bool" where
  "succeeded r = (case r of Inl e \<Rightarrow> False | Inr x \<Rightarrow> True)"

text \<open>\<open>nonnegBalances p\<close>: every balance entry of \<open>p\<close> has a non-negative free and a
  non-negative locked quantity.\<close>

definition nonnegBalances :: "PaperWallet \<Rightarrow> bool" where
  "nonnegBalances p = list_all (\<lambda>(k, i). 0 \<le> Free i \<and> 0 \<le> Lock i) (assets p)"

text \<open>The fields of an order that no operation changes after the order is logged: all but
  the status and the time of the last update.\<close>

definition static :: "Order \<Rightarrow> Order" where
  "static x = x\<lparr>Status := OrderStatusTypeNew, UpdatedAt := 0\<rparr>"













section \<open>Exchange ids\<close>









































section \<open>Insufficient funds\<close>

lemma balancesKept_refl: "balancesKept p p"
  by (simp add: balancesKept_def)

lemma balancesKept_ensureAsset: "balancesKept p (ensureAsset k p)"
  by (auto simp: balancesKept_def ensureAsset_def split: option.splits if_splits)

lemma balancesKept_ensureAsset2: "balancesKept p (ensureAsset k' (ensureAsset k p))"
  by (auto simp: balancesKept_def ensureAsset_def split: option.splits if_splits)

lemma validateFunds_sell_error:
  "validateFunds_sell sp pair amount value fill p = (Some e, q)
     \<Longrightarrow> q = p \<and> e = ErrInsufficientFunds pair amount"
  by (simp add: validateFunds_sell_def Let_def split: if_splits)

lemma validateFunds_buy_error:
  "validateFunds_buy sp pair amount value fill p = (Some e, q)
     \<Longrightarrow> q = p \<and> e = ErrInsufficientFunds pair amount"
  by (simp add: validateFunds_buy_def Let_def split: if_splits)

lemma validateFunds_error:
  assumes "validateFunds sp side pair amount value fill p = (Some e, q)"
  shows "q = ensureAsset (snd (sp pair)) (ensureAsset (fst (sp pair)) p)
     \<and> e = ErrInsufficientFunds pair amount"
proof (cases "side = SideTypeSell")
  case True
  then show ?thesis using assms validateFunds_sell_error by (simp add: validateFunds_def)
next
  case False
  then show ?thesis using assms validateFunds_buy_error by (simp add: validateFunds_def)
qed

lemma validateFunds_error_kept:
  assumes "validateFunds sp side pair amount value fill p = (Some e, q)"
  shows "balancesKept p q"
  using validateFunds_error[OF assms] balancesKept_ensureAsset2 by simp

lemma CreateOrderLimit_error:
  assumes "CreateOrderLimit sp side pair sz limit p = (Inl e, q)"
  shows "(e = ErrInvalidQuantity \<and> q = p) \<or> validateFunds sp side pair sz limit False p = (Some e, q)"
proof -
  obtain r p1 where v: "validateFunds sp side pair sz limit False p = (r, p1)"
    by (cases "validateFunds sp side pair sz limit False p")
  show ?thesis
  proof (cases "sz = 0")
    case True
    then show ?thesis using assms by (simp add: CreateOrderLimit_def)
  next
    case False
    show ?thesis
    proof (cases r)
      case None
      then show ?thesis
        using assms v False by (simp add: CreateOrderLimit_def Let_def case_prod_beta)
    next
      case (Some e')
      then show ?thesis
        using assms v False by (simp add: CreateOrderLimit_def)
    qed
  qed
qed

lemma CreateOrderStop_error:
  assumes "CreateOrderStop sp pair sz limit p = (Inl e, q)"
  shows "(e = ErrInvalidQuantity \<and> q = p) \<or> validateFunds sp SideTypeSell pair sz limit False p = (Some e, q)"
proof -
  obtain r p1 where v: "validateFunds sp SideTypeSell pair sz limit False p = (r, p1)"
    by (cases "validateFunds sp SideTypeSell pair sz limit False p")
  show ?thesis
  proof (cases "sz = 0")
    case True
    then show ?thesis using assms by (simp add: CreateOrderStop_def)
  next
    case False
    show ?thesis
    proof (cases r)
      case None
      then show ?thesis
        using assms v False by (simp add: CreateOrderStop_def Let_def case_prod_beta)
    next
      case (Some e')
      then show ?thesis
        using assms v False by (simp add: CreateOrderStop_def)
    qed
  qed
qed

lemma CreateOrderOCO_error:
  assumes "CreateOrderOCO sp side pair sz price stop stopLimit p = (Inl e, q)"
  shows "(e = ErrInvalidQuantity \<and> q = p) \<or> validateFunds sp side pair sz price False p = (Some e, q)"
proof -
  obtain r p1 where v: "validateFunds sp side pair sz price False p = (r, p1)"
    by (cases "validateFunds sp side pair sz price False p")
  show ?thesis
  proof (cases "sz = 0")
    case True
    then show ?thesis using assms by (simp add: CreateOrderOCO_def)
  next
    case False
    show ?thesis
    proof (cases r)
      case None
      then show ?thesis
        using assms v False by (simp add: CreateOrderOCO_def Let_def case_prod_beta)
    next
      case (Some e')
      then show ?thesis
        using assms v False by (simp add: CreateOrderOCO_def)
    qed
  qed
qed

lemma createOrderMarket_error:
  assumes "createOrderMarket sp side pair sz p = (Inl e, q)"
  shows "(e = ErrInvalidQuantity \<and> q = p) \<or> validateFunds sp side pair sz (Close (getCandle (lastCandle p) pair)) True p = (Some e, q)"
proof -
  obtain r p1 where v: "validateFunds sp side pair sz (Close (getCandle (lastCandle p) pair)) True p = (r, p1)"
    by (cases "validateFunds sp side pair sz (Close (getCandle (lastCandle p) pair)) True p")
  show ?thesis
  proof (cases "sz = 0")
    case True
    then show ?thesis using assms by (simp add: createOrderMarket_def)
  next
    case False
    show ?thesis
    proof (cases r)
      case None
      then show ?thesis
        using assms v False by (simp add: createOrderMarket_def Let_def case_prod_beta)
    next
      case (Some e')
      then show ?thesis
        using assms v False by (simp add: createOrderMarket_def)
    qed
  qed
qed

lemma placement_error_kept:
  assumes "(e = ErrInvalidQuantity \<and> q = p) \<or> validateFunds sp side pair sz v fill p = (Some e, q)"
    and "e = ErrInsufficientFunds pr n"
  shows "balancesKept p q"
  using assms validateFunds_error_kept by (auto simp: balancesKept_refl)

text \<open>
  Claim C7. Whenever a placement operation (OCO, limit, stop or market order) fails with
  \<^verbatim>\<open>ErrInsufficientFunds\<close>, the wallet it leaves keeps every balance entry with its free and
  locked quantities; the only change is that the entries of the pair's asset and quote, if
  they were missing, now exist with zero free and zero locked. Nothing else of the wallet
  changes, and the error is the value the call returns.
\<close>

theorem C7_insufficient_funds_reserves_nothing:
  assumes "step sp x p = Inr (Some (ErrInsufficientFunds pr n), q)"
  shows "balancesKept p q"
proof (cases x)
  case (OpOCO side pair sz price stop stopLimit)
  with assms have "CreateOrderOCO sp side pair sz price stop stopLimit p
      = (Inl (ErrInsufficientFunds pr n), q)"
    by (simp split: prod.splits sum.splits)
  from placement_error_kept[OF CreateOrderOCO_error[OF this]] show ?thesis by simp
next
  case (OpLimit side pair sz limit)
  with assms have "CreateOrderLimit sp side pair sz limit p = (Inl (ErrInsufficientFunds pr n), q)"
    by (simp split: prod.splits sum.splits)
  from placement_error_kept[OF CreateOrderLimit_error[OF this]] show ?thesis by simp
next
  case (OpStop pair sz limit)
  with assms have "CreateOrderStop sp pair sz limit p = (Inl (ErrInsufficientFunds pr n), q)"
    by (simp split: prod.splits sum.splits)
  from placement_error_kept[OF CreateOrderStop_error[OF this]] show ?thesis by simp
next
  case (OpMarket side pair sz)
  with assms have "createOrderMarket sp side pair sz p = (Inl (ErrInsufficientFunds pr n), q)"
    by (simp add: CreateOrderMarket_def split: prod.splits sum.splits)
  from placement_error_kept[OF createOrderMarket_error[OF this]] show ?thesis by simp
next
  case (OpCancel odr)
  then show ?thesis using assms by (simp add: Cancel_def)
next
  case (OpCandle candle)
  then show ?thesis using assms by (simp split: sum.splits)
qed

theorem C7_witness:
  "step splitX (OpMarket SideTypeBuy ''XUSDT'' 2000) wallet1
     = Inr (Some (ErrInsufficientFunds ''XUSDT'' 2000), c7_after)
   \<and> balancesKept wallet1 c7_after"
proof -
  let ?s = "step splitX (OpMarket SideTypeBuy ''XUSDT'' 2000) wallet1"
  have a: "succeeded ?s" by code_simp
  have b: "fst (projr ?s) = Some (ErrInsufficientFunds ''XUSDT'' 2000)" by code_simp
  have c: "?s = Inr (Some (ErrInsufficientFunds ''XUSDT'' 2000), c7_after)"
  proof (cases ?s)
    case (Inl e)
    then show ?thesis using a by (simp add: succeeded_def)
  next
    case (Inr y)
    then show ?thesis using b by (cases y) (simp add: c7_after_def)
  qed
  show ?thesis using c C7_insufficient_funds_reserves_nothing[OF c] by simp
qed

section \<open>The scenario of a buy and a sell at market\<close>

text \<open>
  Claim C3, evaluated. From a balance of 10000 \<^verbatim>\<open>USDT\<close> and bars of closes 10, 12 and 8
  on the pair: a market buy of 50 units on the first bar leaves 50 units of the asset free
  and 9500 \<^verbatim>\<open>USDT\<close> free, and a market sell of 50 units on the third bar leaves 9900
  \<^verbatim>\<open>USDT\<close> free. The wallet computes no realized loss for the sell: \<^verbatim>\<open>validateFunds\<close>
  takes the 50 units off the free quantity before it calls \<^verbatim>\<open>updateAveragePrice\<close>, which
  reads a position of zero, takes its branch for a wallet without a position, records 8 as
  the average short price and logs nothing. Called on the wallet as it is before the sell,
  where the position is 50 at the average price 10, \<^verbatim>\<open>updateAveragePrice\<close> logs
  \<open>(8 - 10) * 50 = -100\<close>, the value that the replay of the order controller returns for
  the order.
\<close>

theorem C3_closing_sell_logs_no_loss:
  "succeeded (PaperWallet_OnCandle splitX (bar 1 10) wallet0)
   \<and> succeeded (fst c3_buy)
   \<and> getAsset (exchange (snd c3_buy)) ''X'' = \<lparr>Free = 50, Lock = 0\<rparr>
   \<and> getAsset (exchange (snd c3_buy)) ''USDT'' = \<lparr>Free = 9500, Lock = 0\<rparr>
   \<and> succeeded c3_bar2 \<and> succeeded c3_bar3
   \<and> Close (getCandle (lastCandle (projr c3_bar3)) ''XUSDT'') = 8
   \<and> getAsset (projr c3_bar3) ''X'' = \<lparr>Free = 50, Lock = 0\<rparr>
   \<and> avgLongPrice (projr c3_bar3) ''XUSDT'' = Some 10
   \<and> profitLog (projr c3_bar3) = []
   \<and> succeeded (fst c3_sell)
   \<and> getAsset (exchange (snd c3_sell)) ''USDT'' = \<lparr>Free = 9900, Lock = 0\<rparr>
   \<and> getAsset (exchange (snd c3_sell)) ''X'' = \<lparr>Free = 0, Lock = 0\<rparr>
   \<and> profitLog (exchange (snd c3_sell)) = []
   \<and> avgShortPrice (exchange (snd c3_sell)) ''XUSDT'' = Some 8
   \<and> avgLongPrice (exchange (snd c3_sell)) ''XUSDT'' = Some 10
   \<and> profitLog (snd (createOrderMarket splitX SideTypeSell ''XUSDT'' 50 (projr c3_bar3))) = []
   \<and> profitLog (snd (validateFunds splitX SideTypeSell ''XUSDT'' 50 8 True (projr c3_bar3))) = []
   \<and> profitLog (updateAveragePrice splitX SideTypeSell ''XUSDT'' 50 8 (projr c3_bar3))
        = [(8 - 10) * 50]
   \<and> calculateProfit (storage (snd c3_sell)) (last (storage (snd c3_sell)))
        = Inr ((8 - 10) * 50, - (1 / 5))"
  by code_simp

section \<open>Incremental profit and profit by replay\<close>

text \<open>
  Claim C1, evaluated. After a market buy of 100 units at 10, a market sell of 60 units at 8
  closes part of the long position. \<^verbatim>\<open>updateAveragePrice\<close> runs after \<^verbatim>\<open>validateFunds\<close>
  has taken the 60 units off the free quantity, reads 40 as the position and logs the
  profit \<open>60 * 8 - min 60 40 * 10 = 80\<close>; \<^verbatim>\<open>calculateProfit\<close> replays the stored orders
  and returns \<open>(8 - 10) * 60 = -120\<close> for the same order. In the scenario of claim C3 the sell
  of the whole position makes \<^verbatim>\<open>updateAveragePrice\<close> read a position of zero and log no
  profit at all, where the replay returns \<open>-100\<close>.
\<close>

theorem C1_incremental_and_replay_differ:
  "succeeded (fst c1_buy) \<and> succeeded c1_bar2 \<and> succeeded (fst c1_sell)
   \<and> profitLog (exchange (snd c1_buy)) = []
   \<and> profitLog (exchange (snd c1_sell)) = [80]
   \<and> calculateProfit (storage (snd c1_sell)) (last (storage (snd c1_sell)))
        = Inr (- 120, - (1 / 5))
   \<and> LoseShort (getSummary (snd c1_sell) ''XUSDT'') = [- 120]
   \<and> profitLog (exchange (snd c3_sell)) = []
   \<and> LoseShort (getSummary (snd c3_sell) ''XUSDT'') = [- 100]"
  by code_simp

section \<open>Order groups\<close>

text \<open>
  Claim C4, evaluated on the buy side. A buy-side OCO order creates two pending buy orders
  of one group and locks 450 \<^verbatim>\<open>USDT\<close> once. On a bar of close 9 the branch of
  \<^verbatim>\<open>OnCandle\<close> that fills buy orders fills the first leg and cancels nothing: the second
  leg is still pending when the loop reaches it and is filled too. The sibling ends
  \<^verbatim>\<open>Filled\<close>, not \<^verbatim>\<open>Canceled\<close>, 100 units are bought instead of 50 and the locked
  quantity of \<^verbatim>\<open>USDT\<close> ends at \<open>-550\<close>.
\<close>

theorem C4_buy_oco_sibling_not_canceled:
  "succeeded (fst c4_oco)
   \<and> map GroupID (orders (snd c4_oco)) = [Some 1, Some 1]
   \<and> map Side (orders (snd c4_oco)) = [SideTypeBuy, SideTypeBuy]
   \<and> map Status (orders (snd c4_oco)) = [OrderStatusTypeNew, OrderStatusTypeNew]
   \<and> getAsset (snd c4_oco) ''USDT'' = \<lparr>Free = 9550, Lock = 450\<rparr>
   \<and> succeeded c4_bar2
   \<and> map Status (orders (projr c4_bar2)) = [OrderStatusTypeFilled, OrderStatusTypeFilled]
   \<and> getAsset (projr c4_bar2) ''X'' = \<lparr>Free = 100, Lock = 0\<rparr>
   \<and> getAsset (projr c4_bar2) ''USDT'' = \<lparr>Free = 9550, Lock = - 550\<rparr>"
  by code_simp

section \<open>Late bars\<close>

text \<open>
  Claim C5 as stated fails: \<^verbatim>\<open>PaperWallet.OnCandle\<close> compares no timestamps. A bar of time
  1 that arrives after the bar of time 2 replaces the last bar of the pair, fills the
  pending limit buy at 11 (its close is 10), moves the balances and the average price and
  appends an equity sample.
\<close>

theorem C5_engine_processes_late_bar:
  "succeeded (fst c5_limit)
   \<and> CandleTime (getCandle (lastCandle (snd c5_limit)) ''XUSDT'') = 2
   \<and> CandleTime (bar 1 10) = 1
   \<and> succeeded c5_stale
   \<and> CandleTime (getCandle (lastCandle (projr c5_stale)) ''XUSDT'') = 1
   \<and> map Status (orders (snd c5_limit)) = [OrderStatusTypeNew]
   \<and> map Status (orders (projr c5_stale)) = [OrderStatusTypeFilled]
   \<and> getAsset (snd c5_limit) ''USDT'' = \<lparr>Free = 9450, Lock = 550\<rparr>
   \<and> getAsset (projr c5_stale) ''USDT'' = \<lparr>Free = 9450, Lock = 0\<rparr>
   \<and> getAsset (projr c5_stale) ''X'' = \<lparr>Free = 50, Lock = 0\<rparr>
   \<and> avgLongPrice (snd c5_limit) ''XUSDT'' = None
   \<and> avgLongPrice (projr c5_stale) ''XUSDT'' = Some 11
   \<and> length (equityValues (snd c5_limit)) = 2
   \<and> length (equityValues (projr c5_stale)) = 3"
  by code_simp

text \<open>
  Claim C5 as amended. The strategy controller drops a bar whose time is before the last
  time of its dataframe: \<^verbatim>\<open>Controller.OnCandle\<close> of package \<^verbatim>\<open>strategy\<close> reports the bar
  as late and returns without error, the dataframe and the broker are as before and the
  strategy is not called.
\<close>

theorem C5_strategy_controller_drops_late_bar:
  assumes "DfTime (dataframe s) \<noteq> []"
    and "CandleTime candle < last (DfTime (dataframe s))"
  shows "StrategyController_OnCandle strat candle s
           = Inr (s\<lparr>lateCandles := lateCandles s @ [candle]\<rparr>)"
  using assms by (simp add: StrategyController_OnCandle_def last_conv_nth)

theorem C5_witness:
  "DfTime (dataframe c5_controller) \<noteq> []
   \<and> CandleTime (bar 1 10) < last (DfTime (dataframe c5_controller))
   \<and> StrategyController_OnCandle c5_strategy (bar 1 10) c5_controller
        = Inr (c5_controller\<lparr>lateCandles := [bar 1 10]\<rparr>)"
proof -
  have a: "DfTime (dataframe c5_controller) \<noteq> []" by (simp add: c5_controller_def)
  have b: "CandleTime (bar 1 10) < last (DfTime (dataframe c5_controller))"
    by (simp add: c5_controller_def bar_def)
  have c: "lateCandles c5_controller = []" by (simp add: c5_controller_def)
  show ?thesis
    using C5_strategy_controller_drops_late_bar[OF a b, of c5_strategy] a b c by simp
qed

section \<open>Cancellation of a filled order\<close>

lemma Cancel_loop_length: "length (Cancel_loop e xs) = length xs"
  by (induction xs) auto

lemma Cancel_loop_nth:
  "j < length xs \<Longrightarrow> Cancel_loop e xs ! j =
     (if ExchangeID (xs ! j) = e then (xs ! j)\<lparr>Status := OrderStatusTypeCanceled\<rparr> else xs ! j)"
proof (induction xs arbitrary: j)
  case Nil
  then show ?case by simp
next
  case (Cons x xs)
  then show ?case by (cases j) auto
qed

text \<open>
  Claim C6 as stated fails: \<^verbatim>\<open>Cancel\<close> looks at no status. Called on the filled market
  order of the log it returns \<^verbatim>\<open>nil\<close> and the status of that order becomes
  \<^verbatim>\<open>Canceled\<close>.
\<close>

theorem C6_cancel_filled_order_changes_status:
  "Status (orders c6_wallet ! 0) = OrderStatusTypeFilled
   \<and> fst (Cancel (orders c6_wallet ! 0) c6_wallet) = None
   \<and> Status (orders (snd (Cancel (orders c6_wallet ! 0) c6_wallet)) ! 0)
        = OrderStatusTypeCanceled"
  by code_simp

text \<open>
  Claim C6 as amended. For every order of the log whose status is \<^verbatim>\<open>Filled\<close>, \<^verbatim>\<open>Cancel\<close>
  called with an order of that exchange id returns success; the status of the order
  becomes \<^verbatim>\<open>Canceled\<close> and nothing else changes: its other fields, the length of the log,
  every order with another exchange id, and every part of the wallet other than the log
  (balances, average prices, bars, equity history) are as before.
\<close>

theorem C6_cancel_filled_order:
  assumes "i < length (orders p)"
    and "Status (orders p ! i) = OrderStatusTypeFilled"
    and "ExchangeID odr = ExchangeID (orders p ! i)"
    and "Cancel odr p = (r, q)"
  shows "r = None
    \<and> orders q ! i = (orders p ! i)\<lparr>Status := OrderStatusTypeCanceled\<rparr>
    \<and> length (orders q) = length (orders p)
    \<and> (\<forall>j < length (orders p). ExchangeID (orders p ! j) \<noteq> ExchangeID odr
          \<longrightarrow> orders q ! j = orders p ! j)
    \<and> q = p\<lparr>orders := orders q\<rparr>"
  using assms by (auto simp: Cancel_def Cancel_loop_nth Cancel_loop_length)

theorem C6_witness:
  "0 < length (orders c6_wallet)
   \<and> Status (orders c6_wallet ! 0) = OrderStatusTypeFilled
   \<and> Cancel (orders c6_wallet ! 0) c6_wallet
        = (None, snd (Cancel (orders c6_wallet ! 0) c6_wallet))
   \<and> orders (snd (Cancel (orders c6_wallet ! 0) c6_wallet)) ! 0
        = (orders c6_wallet ! 0)\<lparr>Status := OrderStatusTypeCanceled\<rparr>"
proof -
  let ?q = "snd (Cancel (orders c6_wallet ! 0) c6_wallet)"
  have l: "0 < length (orders c6_wallet)" by code_simp
  have f: "Status (orders c6_wallet ! 0) = OrderStatusTypeFilled" by code_simp
  have c: "Cancel (orders c6_wallet ! 0) c6_wallet = (None, ?q)" by (simp add: Cancel_def)
  show ?thesis using C6_cancel_filled_order[OF l f refl c] l f c by simp
qed

section \<open>Drawdown of short and of increasing series\<close>

lemma MaxFloat64_pos: "0 < MaxFloat64"
  by (simp add: MaxFloat64_def)

lemma MaxFloat64_large: "20 < MaxFloat64"
  by (simp add: MaxFloat64_def)

text \<open>
  Claim C8, evaluated. With no sample \<^verbatim>\<open>MaxDrawdown\<close> returns zero and zero times. With
  exactly one sample, of value 10000 at time 1, the guard \<^verbatim>\<open>len(p.equityValues) < 1\<close> does
  not apply, the loop does not run and the function returns the initial value of
  \<^verbatim>\<open>globalMin\<close>, \<^verbatim>\<open>math.MaxFloat64\<close>, divided by the sample, with the time of the sample
  as start and end.
\<close>

theorem C8_single_sample_drawdown:
  "MaxDrawdown (wallet0\<lparr>equityValues := []\<rparr>) = (0, 0, 0)
   \<and> MaxDrawdown (wallet0\<lparr>equityValues := [\<lparr>Time = 1, Value = 10000\<rparr>]\<rparr>)
        = (MaxFloat64 / 10000, 1, 1)
   \<and> MaxFloat64 / 10000 > 0"
  using MaxFloat64_pos by (simp add: MaxDrawdown_def)

text \<open>
  Claim C9, evaluated. On the increasing series 100, 110, 130 the first step of the loop
  stores the rise 10 as \<^verbatim>\<open>globalMin\<close>, because it is below \<^verbatim>\<open>math.MaxFloat64\<close>, and
  \<^verbatim>\<open>MaxDrawdown\<close> returns \<open>10 / 100\<close>, not \<open>0\<close>.
\<close>

theorem C9_increasing_series_drawdown:
  "MaxDrawdown (wallet0\<lparr>equityValues :=
      [\<lparr>Time = 1, Value = 100\<rparr>, \<lparr>Time = 2, Value = 110\<rparr>, \<lparr>Time = 3, Value = 130\<rparr>]\<rparr>)
     = (1 / 10, 1, 2)"
  using MaxFloat64_pos MaxFloat64_large by (simp add: MaxDrawdown_def)

section \<open>Balances in runs without short sales\<close>

subsection \<open>The ledger\<close>








lemma nonneg_getAsset:
  assumes "nonnegBalances p"
  shows "0 \<le> Free (getAsset p k)" "0 \<le> Lock (getAsset p k)"
proof -
  have "0 \<le> Free (getAsset p k) \<and> 0 \<le> Lock (getAsset p k)"
  proof (cases "map_of (assets p) k")
    case None
    then show ?thesis by (simp add: getAsset_def)
  next
    case (Some i)
    then have "(k, i) \<in> set (assets p)" by (rule map_of_SomeD)
    then show ?thesis using assms Some by (auto simp: nonnegBalances_def list_all_iff getAsset_def)
  qed
  then show "0 \<le> Free (getAsset p k)" "0 \<le> Lock (getAsset p k)" by auto
qed

lemma list_all_update:
  "list_all P al \<Longrightarrow> P (k, v) \<Longrightarrow> list_all P (AList.update k v al)"
proof (induction al)
  case Nil
  then show ?case by simp
next
  case (Cons a al)
  then show ?case by (cases a) simp
qed

lemma nonneg_addFree:
  assumes "nonnegBalances p" "0 \<le> Free (getAsset p k) + d"
  shows "nonnegBalances (addFree k d p)"
  using assms nonneg_getAsset(2)[OF assms(1), of k]
  by (simp add: nonnegBalances_def addFree_def list_all_update)

lemma nonneg_addLock:
  assumes "nonnegBalances p" "0 \<le> Lock (getAsset p k) + d"
  shows "nonnegBalances (addLock k d p)"
  using assms nonneg_getAsset(1)[OF assms(1), of k]
  by (simp add: nonnegBalances_def addLock_def list_all_update)

lemma nonneg_ensureAsset: "nonnegBalances p \<Longrightarrow> nonnegBalances (ensureAsset k p)"
  by (cases "map_of (assets p) k") (simp_all add: nonnegBalances_def ensureAsset_def)


lemma orders_ledger [simp]:
  "orders (addFree k d p) = orders p" "orders (addLock k d p) = orders p"
  "orders (ensureAsset k p) = orders p"
  "orders (updateAveragePrice sp side pair a v p) = orders p"
  by (simp_all add: addFree_def addLock_def ensureAsset_def updateAveragePrice_def Let_def
      split: option.splits)

lemma lastCandle_ledger [simp]:
  "lastCandle (addFree k d p) = lastCandle p" "lastCandle (addLock k d p) = lastCandle p"
  "lastCandle (ensureAsset k p) = lastCandle p"
  "lastCandle (updateAveragePrice sp side pair a v p) = lastCandle p"
  by (simp_all add: addFree_def addLock_def ensureAsset_def updateAveragePrice_def Let_def
      split: option.splits)




lemmas nonneg_intros = nonneg_addFree nonneg_addLock nonneg_ensureAsset



subsection \<open>Reserved quantities\<close>

lemma static_fields [simp]:
  "ExchangeID (static x) = ExchangeID x" "OrderPair (static x) = OrderPair x"
  "Side (static x) = Side x" "Type (static x) = Type x" "Price (static x) = Price x"
  "Quantity (static x) = Quantity x" "Stop (static x) = Stop x" "GroupID (static x) = GroupID x"
  by (simp_all add: static_def)



































subsection \<open>Placements and cancellations keep the invariant\<close>













subsection \<open>Bars keep the invariant\<close>



lemma getAsset_upd [simp]:
  "getAsset (p\<lparr>orders := os\<rparr>) k = getAsset p k"
  "getAsset (p\<lparr>volume := v\<rparr>) k = getAsset p k"
  "getAsset (p\<lparr>lastCandle := lc\<rparr>) k = getAsset p k"
  "getAsset (p\<lparr>fistCandle := fc\<rparr>) k = getAsset p k"
  "getAsset (p\<lparr>assetValues := av\<rparr>) k = getAsset p k"
  "getAsset (p\<lparr>equityValues := ev\<rparr>) k = getAsset p k"
  by (simp_all add: getAsset_def)

lemma nonneg_upd [simp]:
  "nonnegBalances (p\<lparr>orders := os\<rparr>) = nonnegBalances p"
  "nonnegBalances (p\<lparr>volume := v\<rparr>) = nonnegBalances p"
  "nonnegBalances (p\<lparr>lastCandle := lc\<rparr>) = nonnegBalances p"
  "nonnegBalances (p\<lparr>fistCandle := fc\<rparr>) = nonnegBalances p"
  "nonnegBalances (p\<lparr>assetValues := av\<rparr>) = nonnegBalances p"
  "nonnegBalances (p\<lparr>equityValues := ev\<rparr>) = nonnegBalances p"
  by (simp_all add: nonnegBalances_def)












subsection \<open>Runs\<close>








end
